theory Spec2Isabelle
  imports Main
begin

section \<open>JavaScript values used by the program\<close>

text \<open>
  Strings are lists of characters. Isabelle's \<open>char\<close> has 256 values, so the model covers
  strings whose code units are below 256; every literal of the source is ASCII.

  A JavaScript string is falsy exactly when it is empty, and \<open>null\<close>/\<open>undefined\<close> are
  falsy; an optional string is \<open>None\<close> for \<open>null\<close>/\<open>undefined\<close>.
\<close>

definition truthy :: "string option \<Rightarrow> bool" where
  "truthy v = (case v of None \<Rightarrow> False | Some s \<Rightarrow> s \<noteq> [])"

text \<open>\<open>v || fallback\<close> on an optional string.\<close>

definition orElse :: "string option \<Rightarrow> string \<Rightarrow> string" where
  "orElse v fallback = (case v of None \<Rightarrow> fallback | Some s \<Rightarrow> if s = [] then fallback else s)"

text \<open>
  \<open>String.prototype.trim\<close> removes white space and line terminators from both ends.
  Below 256 these are the code units 9 to 13, 32 and 160.
\<close>

definition isWhiteSpace :: "char \<Rightarrow> bool" where
  "isWhiteSpace c = (let n = (of_char c :: nat) in (9 \<le> n \<and> n \<le> 13) \<or> n = 32 \<or> n = 160)"

definition trim :: "string \<Rightarrow> string" where
  "trim s = rev (dropWhile isWhiteSpace (rev (dropWhile isWhiteSpace s)))"

text \<open>\<open>s.startsWith(p)\<close>, returning the rest of \<open>s\<close> after \<open>p\<close> when it does.\<close>

fun afterPrefix :: "string \<Rightarrow> string \<Rightarrow> string option" where
  "afterPrefix [] s = Some s"
| "afterPrefix (p # ps) [] = None"
| "afterPrefix (p # ps) (c # cs) = (if p = c then afterPrefix ps cs else None)"

definition startsWith :: "string \<Rightarrow> string \<Rightarrow> bool" where
  "startsWith s p = (case afterPrefix p s of None \<Rightarrow> False | Some _ \<Rightarrow> True)"

text \<open>
  A thrown value, as the \<open>catch\<close> clauses of the program read it: only its \<open>message\<close>
  property is used. \<open>WithMessage m\<close> is a value other than \<open>undefined\<close> and \<open>null\<close> whose
  \<open>message\<close> reads as \<open>m\<close>, which may be missing or empty; \<open>new Error(msg)\<close> is
  \<open>WithMessage (Some msg)\<close>. \<open>Nullish\<close> is \<open>undefined\<close> or \<open>null\<close>: reading a property
  of it raises a \<open>TypeError\<close>.
\<close>

datatype thrown = Nullish | WithMessage "string option"

section \<open>types.ts\<close>

datatype AppStatus = IDLE | LOADING | SUCCESS | ERROR

section \<open>services/geminiService.ts: the gateway\<close>

subsection \<open>The external service\<close>

text \<open>
  The response of \<open>generateContent\<close>, as far as the gateway reads it:
  \<open>response.candidates?.[0]?.content?.parts\<close>, and of each part \<open>inlineData.data\<close> and
  \<open>text\<close>. Every level may be absent.
\<close>

record inline_data =
  data :: "string option"

record part =
  inlineData :: "inline_data option"
  partText :: "string option"

record content =
  parts :: "part list option"

record candidate =
  candidateContent :: "content option"

record response =
  candidates :: "candidate list option"

text \<open>The request the gateway sends: the model identifier, the inline image and the text.\<close>

record request =
  model :: string
  requestData :: string
  requestMimeType :: string
  requestText :: string

text \<open>
  The process configuration, the service and the engine. \<open>generateContent\<close> either
  throws or returns a response; \<open>API_KEY\<close> is \<open>process.env.API_KEY\<close>;
  \<open>typeErrorMessage\<close> is the message of the \<open>TypeError\<close> that the engine raises when a
  property of \<open>undefined\<close> or \<open>null\<close> is read (its wording differs between engines).
\<close>

record environment =
  API_KEY :: "string option"
  generateContent :: "request \<Rightarrow> thrown + response"
  typeErrorMessage :: string

text \<open>Reading \<open>error.message\<close>: the message, or the \<open>TypeError\<close> thrown instead.\<close>

definition readMessage :: "environment \<Rightarrow> thrown \<Rightarrow> thrown + string option" where
  "readMessage env e =
     (case e of
        Nullish \<Rightarrow> Inl (WithMessage (Some (typeErrorMessage env)))
      | WithMessage m \<Rightarrow> Inr m)"

subsection \<open>getClient\<close>

text \<open>
  \<open>getClient\<close> throws when the key is missing or empty, and otherwise returns the client
  built from it; the client is represented by its key.
\<close>

definition getClient :: "environment \<Rightarrow> thrown + string" where
  "getClient env =
     (if \<not> truthy (API_KEY env) then Inl (WithMessage (Some ''API_KEY environment variable is not set''))
      else Inr (the (API_KEY env)))"

subsection \<open>Stripping the data URL prefix\<close>

text \<open>The class \<open>\w\<close> of a regular expression without flags: \<open>[A-Za-z0-9_]\<close>.\<close>

definition isWordChar :: "char \<Rightarrow> bool" where
  "isWordChar c =
     (let n = (of_char c :: nat)
      in (48 \<le> n \<and> n \<le> 57) \<or> (65 \<le> n \<and> n \<le> 90) \<or> n = 95 \<or> (97 \<le> n \<and> n \<le> 122))"

text \<open>
  \<open>base64Image.replace(/^data:image\/\w+;base64,/, "")\<close>. The pattern is anchored at the
  start and has no \<open>g\<close> flag, so at most the leading match is removed. \<open>\w+\<close> is greedy,
  and the character after it must be \<open>;\<close>, which is no word character: only the longest
  run of word characters can be followed by the rest of the pattern.
\<close>

definition cleanBase64 :: "string \<Rightarrow> string" where
  "cleanBase64 base64Image =
     (case afterPrefix ''data:image/'' base64Image of
        None \<Rightarrow> base64Image
      | Some r \<Rightarrow>
          if takeWhile isWordChar r = [] then base64Image
          else (case afterPrefix '';base64,'' (dropWhile isWordChar r) of
                  None \<Rightarrow> base64Image
                | Some payload \<Rightarrow> payload))"

subsection \<open>editImageWithGemini\<close>

definition buildRequest :: "string \<Rightarrow> string \<Rightarrow> string \<Rightarrow> request" where
  "buildRequest base64Image mimeType prompt =
     \<lparr> model = ''gemini-2.5-flash-image'',
       requestData = cleanBase64 base64Image,
       requestMimeType = mimeType,
       requestText = prompt \<rparr>"

text \<open>\<open>response.candidates?.[0]?.content?.parts\<close>\<close>

definition responseParts :: "response \<Rightarrow> part list option" where
  "responseParts r =
     (case candidates r of
        None \<Rightarrow> None
      | Some [] \<Rightarrow> None
      | Some (c # _) \<Rightarrow>
          (case candidateContent c of None \<Rightarrow> None | Some ct \<Rightarrow> parts ct))"

text \<open>\<open>part.inlineData && part.inlineData.data\<close>\<close>

definition inlineImage :: "part \<Rightarrow> string option" where
  "inlineImage p =
     (case inlineData p of
        None \<Rightarrow> None
      | Some d \<Rightarrow> if truthy (data d) then data d else None)"

text \<open>The loop over the parts, which stops at the first part with inline image data.\<close>

fun firstImage :: "part list \<Rightarrow> string option" where
  "firstImage [] = None"
| "firstImage (p # ps) =
     (case inlineImage p of Some d \<Rightarrow> Some d | None \<Rightarrow> firstImage ps)"

text \<open>\<open>parts.find(p => p.text)\<close>\<close>

fun findText :: "part list \<Rightarrow> part option" where
  "findText [] = None"
| "findText (p # ps) = (if truthy (partText p) then Some p else findText ps)"

text \<open>The body of the \<open>try\<close> block after the response has arrived.\<close>

definition readResponse :: "response \<Rightarrow> thrown + string" where
  "readResponse r =
     (case responseParts r of
        None \<Rightarrow> Inl (WithMessage (Some ''No content returned from Gemini''))
      | Some [] \<Rightarrow> Inl (WithMessage (Some ''No content returned from Gemini''))
      | Some ps \<Rightarrow>
          (case firstImage ps of
             Some generatedImageBase64 \<Rightarrow> Inr (''data:image/png;base64,'' @ generatedImageBase64)
           | None \<Rightarrow>
               (case findText ps of
                  Some textPart \<Rightarrow>
                    Inl (WithMessage
                      (Some (''Model returned text instead of image: '' @ the (partText textPart))))
                | None \<Rightarrow> Inl (WithMessage (Some ''Model did not return a valid image.'')))))"

text \<open>The whole \<open>try\<close> block: one call of the service, then the reading of its response.\<close>

definition tryBlock :: "environment \<Rightarrow> string \<Rightarrow> string \<Rightarrow> string \<Rightarrow> thrown + string" where
  "tryBlock env base64Image mimeType prompt =
     (case generateContent env (buildRequest base64Image mimeType prompt) of
        Inl e \<Rightarrow> Inl e
      | Inr r \<Rightarrow> readResponse r)"

text \<open>
  The \<open>catch\<close> clause, after it has written the caught value to the console: it throws
  a new \<open>Error\<close> whose message is \<open>error.message || "Failed to process image with Gemini"\<close>,
  unless reading \<open>error.message\<close> throws, and then that \<open>TypeError\<close> leaves the clause.
  The result is the value that the clause throws.
\<close>

definition catchClause :: "environment \<Rightarrow> thrown \<Rightarrow> thrown" where
  "catchClause env e =
     (case readMessage env e of
        Inl typeError \<Rightarrow> typeError
      | Inr m \<Rightarrow> WithMessage (Some (orElse m ''Failed to process image with Gemini'')))"

text \<open>
  One call of \<open>editImageWithGemini\<close>: how the promise it returns settles, and what the call
  writes with \<open>console.error\<close>. The function is \<open>async\<close>, so whatever it throws rejects
  the promise: \<open>Inl\<close> is the rejection with the thrown value, \<open>Inr\<close> the data URL the
  promise resolves to. \<open>getClient\<close> is called before the \<open>try\<close> block, so what it throws
  does not reach the \<open>catch\<close> clause; only that clause writes to the console.
\<close>

record gateway_run =
  promise :: "thrown + string"
  consoleError :: "thrown list"

definition gatewayRun ::
    "environment \<Rightarrow> string \<Rightarrow> string \<Rightarrow> string \<Rightarrow> gateway_run" where
  "gatewayRun env base64Image mimeType prompt =
     (case getClient env of
        Inl e \<Rightarrow> \<lparr> promise = Inl e, consoleError = [] \<rparr>
      | Inr ai \<Rightarrow>
          (case tryBlock env base64Image mimeType prompt of
             Inl e \<Rightarrow> \<lparr> promise = Inl (catchClause env e), consoleError = [e] \<rparr>
           | Inr url \<Rightarrow> \<lparr> promise = Inr url, consoleError = [] \<rparr>))"

text \<open>The promise that \<open>editImageWithGemini\<close> returns.\<close>

definition editImageWithGemini ::
    "environment \<Rightarrow> string \<Rightarrow> string \<Rightarrow> string \<Rightarrow> thrown + string" where
  "editImageWithGemini env base64Image mimeType prompt =
     promise (gatewayRun env base64Image mimeType prompt)"

section \<open>App.tsx: the session state controller\<close>

text \<open>The six state variables of the component, with the names of the source.\<close>

record app_state =
  status :: AppStatus
  originalImage :: "string option"
  generatedImage :: "string option"
  prompt :: string
  error :: "string option"
  mimeType :: string

text \<open>The initial values given to \<open>useState\<close>.\<close>

definition initialState :: app_state where
  "initialState =
     \<lparr> status = IDLE, originalImage = None, generatedImage = None,
       prompt = [], error = None, mimeType = ''image/jpeg'' \<rparr>"

text \<open>
  A selected file: its declared type, and what \<open>readAsDataURL\<close> will deliver as
  \<open>reader.result\<close> (\<open>None\<close> when reading fails).
\<close>

record selected_file =
  fileType :: string
  readerResult :: "string option"

text \<open>
  \<open>handleFileUpload\<close>, up to the start of the read. The argument is
  \<open>event.target.files?.[0]\<close>.
\<close>

definition handleFileUpload :: "selected_file option \<Rightarrow> app_state \<Rightarrow> app_state" where
  "handleFileUpload f s =
     (case f of
        None \<Rightarrow> s
      | Some fl \<Rightarrow>
          if \<not> startsWith (fileType fl) ''image/''
          then s\<lparr>error := Some ''Please upload a valid image file.''\<rparr>
          else s\<lparr>originalImage := None, generatedImage := None, error := None,
                 mimeType := fileType fl, status := IDLE\<rparr>)"

text \<open>The \<open>onloadend\<close> callback of the reader.\<close>

definition onloadend :: "string option \<Rightarrow> app_state \<Rightarrow> app_state" where
  "onloadend result s = s\<lparr>originalImage := result\<rparr>"

text \<open>The \<open>onChange\<close> handler of the text area and the suggestion buttons.\<close>

definition setPrompt :: "string \<Rightarrow> app_state \<Rightarrow> app_state" where
  "setPrompt p s = s\<lparr>prompt := p\<rparr>"

text \<open>The \<open>onClick\<close> handler of the Clear button.\<close>

definition clearGenerated :: "app_state \<Rightarrow> app_state" where
  "clearGenerated s = s\<lparr>generatedImage := None\<rparr>"

text \<open>
  \<open>handleGenerate\<close> is an \<open>async\<close> function. Its invocation runs the guard
  \<open>if (!originalImage || !prompt.trim()) return\<close>, the two updates before the \<open>await\<close>
  and the call of the gateway, with the values of the state it was invoked in. The rest
  runs when the promise of the gateway settles. The updates there are absolute
  assignments, so they apply to whatever the state is at that time. In the \<open>catch\<close>
  clause \<open>err.message\<close> is read first; where that throws, no update is made.
\<close>

definition returnsEarly :: "app_state \<Rightarrow> bool" where
  "returnsEarly s = (\<not> truthy (originalImage s) \<or> \<not> truthy (Some (trim (prompt s))))"

definition beforeAwait :: "app_state \<Rightarrow> app_state" where
  "beforeAwait s = s\<lparr>status := LOADING, error := None\<rparr>"

definition afterAwait :: "thrown + string \<Rightarrow> app_state \<Rightarrow> app_state" where
  "afterAwait outcome s =
     (case outcome of
        Inr result \<Rightarrow> s\<lparr>generatedImage := Some result, status := SUCCESS\<rparr>
      | Inl Nullish \<Rightarrow> s
      | Inl (WithMessage m) \<Rightarrow>
          s\<lparr>error := Some (orElse m ''Something went wrong during generation.''),
            status := ERROR\<rparr>)"

text \<open>
  The invocation of \<open>handleGenerate\<close> up to the \<open>await\<close>: the state it leaves, and the
  arguments of the calls of \<open>editImageWithGemini\<close> it has started.
\<close>

definition invokeGenerate :: "app_state \<Rightarrow> app_state \<times> (string \<times> string \<times> string) list" where
  "invokeGenerate s =
     (if returnsEarly s then (s, [])
      else (beforeAwait s, [(the (originalImage s), mimeType s, prompt s)]))"

definition gatewayCalls :: "app_state \<Rightarrow> (string \<times> string \<times> string) list" where
  "gatewayCalls s = snd (invokeGenerate s)"

text \<open>
  One run of \<open>handleGenerate\<close> in which nothing else happens between the invocation and
  the settling of the calls it has started. Other runs are those of \<open>step\<close> below.
\<close>

definition handleGenerate :: "environment \<Rightarrow> app_state \<Rightarrow> app_state" where
  "handleGenerate env s =
     (case invokeGenerate s of
        (s', calls) \<Rightarrow>
          foldl (\<lambda>st (b, m, p). afterAwait (editImageWithGemini env b m p) st) s' calls)"

text \<open>
  \<open>handleReset\<close>. The last statement of the source empties the file input element,
  which is no part of the state.
\<close>

definition handleReset :: "app_state \<Rightarrow> app_state" where
  "handleReset s =
     s\<lparr>originalImage := None, generatedImage := None, prompt := [],
       status := IDLE, error := None\<rparr>"

section \<open>The session and its events\<close>

text \<open>
  The handlers of the component are invoked one at a time, and the promise of a gateway
  call may settle between any two of them. A session is the state of the component
  together with the gateway calls that have been started and have not settled yet, each
  with the environment it was started in and its arguments.
\<close>

type_synonym gateway_call = "environment \<times> string \<times> string \<times> string"

record session =
  ui :: app_state
  pending :: "gateway_call list"

definition freshSession :: session where
  "freshSession = \<lparr> ui = initialState, pending = [] \<rparr>"

text \<open>
  \<open>Generate env\<close> is an invocation of \<open>handleGenerate\<close> while the environment is \<open>env\<close>;
  \<open>Settle i\<close> is the settling of the pending call at position \<open>i\<close>.
\<close>

datatype event =
    FileUpload "selected_file option"
  | Loadend "string option"
  | SetPrompt string
  | ClearGenerated
  | Reset
  | Generate environment
  | Settle nat

fun step :: "event \<Rightarrow> session \<Rightarrow> session" where
  "step (FileUpload f) w = w\<lparr>ui := handleFileUpload f (ui w)\<rparr>"
| "step (Loadend result) w = w\<lparr>ui := onloadend result (ui w)\<rparr>"
| "step (SetPrompt p) w = w\<lparr>ui := setPrompt p (ui w)\<rparr>"
| "step ClearGenerated w = w\<lparr>ui := clearGenerated (ui w)\<rparr>"
| "step Reset w = w\<lparr>ui := handleReset (ui w)\<rparr>"
| "step (Generate env) w =
     (case invokeGenerate (ui w) of
        (s', calls) \<Rightarrow> \<lparr> ui = s', pending = pending w @ map (\<lambda>c. (env, c)) calls \<rparr>)"
| "step (Settle i) w =
     (if i < length (pending w)
      then (case pending w ! i of
              (env, b, m, p) \<Rightarrow>
                \<lparr> ui = afterAwait (editImageWithGemini env b m p) (ui w),
                  pending = take i (pending w) @ drop (Suc i) (pending w) \<rparr>)
      else w)"

fun run :: "event list \<Rightarrow> session \<Rightarrow> session" where
  "run [] w = w"
| "run (e # es) w = run es (step e w)"

section \<open>Concrete inputs\<close>

definition pngFile :: selected_file where
  "pngFile = \<lparr> fileType = ''image/png'', readerResult = Some ''data:image/png;base64,AAAA'' \<rparr>"

definition textFile :: selected_file where
  "textFile = \<lparr> fileType = ''text/plain'', readerResult = Some ''data:text/plain;base64,aGk='' \<rparr>"

definition imagePart :: "string \<Rightarrow> part" where
  "imagePart d = \<lparr> inlineData = Some \<lparr> data = Some d \<rparr>, partText = None \<rparr>"

definition textPart :: "string \<Rightarrow> part" where
  "textPart t = \<lparr> inlineData = None, partText = Some t \<rparr>"

definition responseOf :: "part list \<Rightarrow> response" where
  "responseOf ps =
     \<lparr> candidates = Some [\<lparr> candidateContent = Some \<lparr> parts = Some ps \<rparr> \<rparr>] \<rparr>"

text \<open>A service that answers every request with the given parts, and one that throws.\<close>

definition answering :: "part list \<Rightarrow> environment" where
  "answering ps =
     \<lparr> API_KEY = Some ''key'', generateContent = (\<lambda>_. Inr (responseOf ps)),
       typeErrorMessage = ''error is undefined'' \<rparr>"

definition throwing :: "thrown \<Rightarrow> environment" where
  "throwing e =
     \<lparr> API_KEY = Some ''key'', generateContent = (\<lambda>_. Inl e),
       typeErrorMessage = ''error is undefined'' \<rparr>"

definition withoutKey :: environment where
  "withoutKey =
     \<lparr> API_KEY = None, generateContent = (\<lambda>_. Inr (responseOf [imagePart ''BBBB''])),
       typeErrorMessage = ''error is undefined'' \<rparr>"

text \<open>The session after a PNG has been uploaded and read and a prompt typed.\<close>

definition readyState :: app_state where
  "readyState =
     setPrompt ''remove background''
       (onloadend (readerResult pngFile) (handleFileUpload (Some pngFile) initialState))"

text \<open>The session after a first generation has succeeded.\<close>

definition succeededState :: app_state where
  "succeededState = handleGenerate (answering [imagePart ''BBBB'']) readyState"

definition pendingState :: app_state where
  "pendingState = beforeAwait readyState"

text \<open>An SVG file, whose data URL the browser starts with \<open>data:image/svg+xml;base64,\<close>.\<close>

definition svgFile :: selected_file where
  "svgFile =
     \<lparr> fileType = ''image/svg+xml'',
       readerResult = Some ''data:image/svg+xml;base64,PHN2Zy8+'' \<rparr>"

definition svgState :: app_state where
  "svgState =
     setPrompt ''remove background''
       (onloadend (readerResult svgFile) (handleFileUpload (Some svgFile) initialState))"


text \<open>
  A session in which one call is pending whose service will throw a value without message.
\<close>

definition failingSession :: session where
  "failingSession =
     \<lparr> ui = pendingState,
       pending = [(throwing (WithMessage None), ''data:image/png;base64,AAAA'', ''image/png'',
                   ''remove background'')] \<rparr>"

section \<open>Auxiliary facts\<close>

lemmas value_defs = truthy_def orElse_def trim_def isWhiteSpace_def startsWith_def

lemmas gateway_defs =
  getClient_def cleanBase64_def isWordChar_def buildRequest_def responseParts_def
  inlineImage_def readResponse_def tryBlock_def readMessage_def catchClause_def gatewayRun_def
  editImageWithGemini_def

text \<open>The run of \<open>handleGenerate\<close> with nothing interleaved, written out.\<close>

lemma handleGenerate_eq:
  "handleGenerate env s =
     (if returnsEarly s then s
      else afterAwait (editImageWithGemini env (the (originalImage s)) (mimeType s) (prompt s))
             (beforeAwait s))"
  by (simp add: handleGenerate_def invokeGenerate_def)

text \<open>It is the run of the session in which the call settles right after the invocation.\<close>

lemma handleGenerate_is_a_run:
  "ui (run [Generate env, Settle (length (pending w))] w) = handleGenerate env (ui w)"
  by (simp add: handleGenerate_eq invokeGenerate_def nth_append)

lemma afterPrefix_append [simp]: "afterPrefix p (p @ s) = Some s"
  by (induction p) simp_all

lemma afterPrefix_Some: "afterPrefix p s = Some r \<Longrightarrow> s = p @ r"
proof (induction p s rule: afterPrefix.induct)
  case (1 s)
  then show ?case by simp
next
  case (2 p ps)
  then show ?case by simp
next
  case (3 p ps c cs)
  then show ?case by (simp split: if_splits)
qed

lemma startsWith_iff: "startsWith s p \<longleftrightarrow> (\<exists>r. s = p @ r)"
proof
  assume "startsWith s p"
  then obtain r where "afterPrefix p s = Some r"
    by (auto simp: startsWith_def split: option.splits)
  then show "\<exists>r. s = p @ r" by (blast dest: afterPrefix_Some)
next
  assume "\<exists>r. s = p @ r"
  then show "startsWith s p" by (auto simp: startsWith_def)
qed

lemma truthy_orElse: "fallback \<noteq> [] \<Longrightarrow> truthy (Some (orElse v fallback))"
  by (simp add: truthy_def orElse_def split: option.splits)

lemma orElse_truthy: "truthy (Some m) \<Longrightarrow> orElse (Some m) fallback = m"
  by (simp add: truthy_def orElse_def)

text \<open>The loop finds the data of the first part that carries inline image data.\<close>

lemma firstImage_None: "\<forall>q\<in>set ps. inlineImage q = None \<Longrightarrow> firstImage ps = None"
  by (induction ps) simp_all

lemma firstImage_first:
  "\<forall>x\<in>set pre. inlineImage x = None \<Longrightarrow> inlineImage q = Some img \<Longrightarrow>
   firstImage (pre @ q # post) = Some img"
  by (induction pre) simp_all

lemma findText_None: "\<forall>q\<in>set ps. \<not> truthy (partText q) \<Longrightarrow> findText ps = None"
  by (induction ps) simp_all

lemma findText_first:
  "\<forall>x\<in>set pre. \<not> truthy (partText x) \<Longrightarrow> truthy (partText q) \<Longrightarrow>
   findText (pre @ q # post) = Some q"
  by (induction pre) simp_all

lemma inlineImage_Some:
  "inlineData q = Some d \<Longrightarrow> data d = Some img \<Longrightarrow> img \<noteq> [] \<Longrightarrow> inlineImage q = Some img"
  by (simp add: inlineImage_def truthy_def)

text \<open>Every part list with an image part splits at its first image part.\<close>

lemma image_parts_split:
  assumes "\<exists>q\<in>set ps. inlineImage q \<noteq> None"
  shows "\<exists>pre q post img. ps = pre @ q # post \<and> (\<forall>x\<in>set pre. inlineImage x = None)
           \<and> inlineImage q = Some img"
proof -
  from assms obtain pre q post where
    "ps = pre @ q # post" "inlineImage q \<noteq> None" "\<forall>x\<in>set pre. \<not> inlineImage x \<noteq> None"
    using split_list_first_prop [of ps "\<lambda>q. inlineImage q \<noteq> None"] by blast
  then show ?thesis by auto
qed

text \<open>Likewise, every part list with a textual part splits at its first textual part.\<close>

lemma text_parts_split:
  assumes "\<exists>q\<in>set ps. truthy (partText q)"
  shows "\<exists>pre q post t. ps = pre @ q # post \<and> (\<forall>x\<in>set pre. \<not> truthy (partText x))
           \<and> partText q = Some t \<and> t \<noteq> []"
proof -
  from assms obtain pre q post where
    "ps = pre @ q # post" "truthy (partText q)" "\<forall>x\<in>set pre. \<not> truthy (partText x)"
    using split_list_first_prop [of ps "\<lambda>q. truthy (partText q)"] by blast
  then show ?thesis by (auto simp: truthy_def split: option.splits)
qed

text \<open>A resolved promise of the gateway always carries a PNG data URL.\<close>

lemma readResponse_Inr:
  "readResponse r = Inr url \<Longrightarrow> \<exists>d. url = ''data:image/png;base64,'' @ d"
  by (auto simp: readResponse_def split: option.splits list.splits)

lemma editImageWithGemini_Inr:
  "editImageWithGemini env b m p = Inr url \<Longrightarrow> \<exists>d. url = ''data:image/png;base64,'' @ d"
  by (auto simp: editImageWithGemini_def gatewayRun_def tryBlock_def
      split: sum.splits dest: readResponse_Inr)

text \<open>A rejected promise of the gateway always carries a value with a message.\<close>

lemma editImageWithGemini_Inl:
  "editImageWithGemini env b m p = Inl e \<Longrightarrow> \<exists>msg. e = WithMessage (Some msg)"
  by (auto simp: editImageWithGemini_def gatewayRun_def getClient_def catchClause_def
      readMessage_def split: sum.splits if_splits thrown.splits)

text \<open>
  What the regular expression removes: a header \<open>data:image/\<close>, a non-empty run of word
  characters, \<open>;base64,\<close>. A string that does not start with \<open>data:image/\<close> is kept.
\<close>

lemma cleanBase64_word_header:
  assumes "w \<noteq> []" and "\<forall>c\<in>set w. isWordChar c"
  shows "cleanBase64 (''data:image/'' @ w @ '';base64,'' @ payload) = payload"
proof -
  have semi: "\<not> isWordChar CHR '';''" by (simp add: isWordChar_def)
  have t: "takeWhile isWordChar (w @ CHR '';'' # rest) = w" for rest
    using assms(2) semi by (simp add: takeWhile_append2)
  have d: "dropWhile isWordChar (w @ CHR '';'' # rest) = CHR '';'' # rest" for rest
    using assms(2) semi by (simp add: dropWhile_append2)
  show ?thesis
    using assms(1) by (simp add: cleanBase64_def t d)
qed

lemma cleanBase64_no_header:
  "\<not> startsWith base64Image ''data:image/'' \<Longrightarrow> cleanBase64 base64Image = base64Image"
  by (simp add: cleanBase64_def startsWith_def split: option.splits)

lemma readyState_eq:
  "readyState =
     \<lparr> status = IDLE, originalImage = Some ''data:image/png;base64,AAAA'',
       generatedImage = None, prompt = ''remove background'', error = None,
       mimeType = ''image/png'' \<rparr>"
  by (simp add: readyState_def setPrompt_def onloadend_def handleFileUpload_def pngFile_def
      initialState_def startsWith_def)

lemma readyState_valid: "\<not> returnsEarly readyState"
  by (simp add: readyState_eq returnsEarly_def value_defs)

lemma succeededState_eq:
  "succeededState =
     \<lparr> status = SUCCESS, originalImage = Some ''data:image/png;base64,AAAA'',
       generatedImage = Some ''data:image/png;base64,BBBB'', prompt = ''remove background'',
       error = None, mimeType = ''image/png'' \<rparr>"
  unfolding succeededState_def handleGenerate_eq
  by (simp add: readyState_valid)
     (simp add: readyState_eq beforeAwait_def afterAwait_def gateway_defs value_defs
        answering_def responseOf_def imagePart_def)

lemma succeededState_valid: "\<not> returnsEarly succeededState"
  by (simp add: succeededState_eq returnsEarly_def value_defs)

lemma pendingState_eq:
  "pendingState =
     \<lparr> status = LOADING, originalImage = Some ''data:image/png;base64,AAAA'',
       generatedImage = None, prompt = ''remove background'', error = None,
       mimeType = ''image/png'' \<rparr>"
  by (simp add: pendingState_def readyState_eq beforeAwait_def)

lemma svgState_eq:
  "svgState =
     \<lparr> status = IDLE, originalImage = Some ''data:image/svg+xml;base64,PHN2Zy8+'',
       generatedImage = None, prompt = ''remove background'', error = None,
       mimeType = ''image/svg+xml'' \<rparr>"
  by (simp add: svgState_def setPrompt_def onloadend_def handleFileUpload_def svgFile_def
      initialState_def startsWith_def)

text \<open>
  Other handlers may run while a call is pending. Here the stored image is cleared between
  the invocation and the failure of its call.
\<close>

lemma clear_while_pending_example:
  "ui (run [Generate (throwing (WithMessage (Some ''quota exceeded''))), ClearGenerated, Settle 0]
         \<lparr> ui = succeededState, pending = [] \<rparr>)
     = \<lparr> status = ERROR, originalImage = Some ''data:image/png;base64,AAAA'',
         generatedImage = None, prompt = ''remove background'',
         error = Some ''quota exceeded'', mimeType = ''image/png'' \<rparr>"
  using succeededState_valid
  by (simp add: invokeGenerate_def)
     (simp add: succeededState_eq beforeAwait_def clearGenerated_def afterAwait_def gateway_defs
        value_defs throwing_def)

section \<open>The gateway\<close>

text \<open>
  C6, as stated, fails. With no \<open>API_KEY\<close>, \<open>getClient\<close> throws before the \<open>try\<close> block:
  the \<open>catch\<close> clause does not run (nothing is written to the console) and the error
  rejects the promise as it was thrown. And when the service throws \<open>undefined\<close>, the
  \<open>catch\<close> clause itself throws a \<open>TypeError\<close>, so the rejection carries neither a message
  of the thrown value nor the fallback message.
\<close>

theorem credential_error_not_caught_counterexample:
  "\<not> truthy (API_KEY withoutKey)
   \<and> gatewayRun withoutKey ''data:image/png;base64,AAAA'' ''image/png'' ''remove background''
       = \<lparr> promise = Inl (WithMessage (Some ''API_KEY environment variable is not set'')),
           consoleError = [] \<rparr>
   \<and> gatewayRun (throwing Nullish) ''data:image/png;base64,AAAA'' ''image/png'' ''remove background''
       = \<lparr> promise = Inl (WithMessage (Some ''error is undefined'')),
           consoleError = [Nullish] \<rparr>"
  by (simp add: gatewayRun_def getClient_def tryBlock_def catchClause_def readMessage_def
      withoutKey_def throwing_def truthy_def)

text \<open>
  C6, amended. When \<open>API_KEY\<close> is missing or empty, the promise is rejected with the
  error of \<open>getClient\<close>, whose message names the missing variable; the \<open>catch\<close> clause
  does not run. When the service throws a value other than \<open>undefined\<close> and \<open>null\<close>, the
  \<open>catch\<close> clause writes it to the console and the promise is rejected with a new error
  that has the message of the thrown value, or the fallback message when that is missing
  or empty. A rejection with a non-empty message makes \<open>handleGenerate\<close> store that
  message and set \<open>ERROR\<close>, on whatever state the promise settles: the failure ends the
  operation, not the program.
\<close>

theorem gateway_rejections:
  "(\<not> truthy (API_KEY env) \<longrightarrow>
      gatewayRun env base64Image mime instr
        = \<lparr> promise = Inl (WithMessage (Some ''API_KEY environment variable is not set'')),
            consoleError = [] \<rparr>)
   \<and> (truthy (API_KEY env)
        \<and> generateContent env (buildRequest base64Image mime instr) = Inl (WithMessage m) \<longrightarrow>
      gatewayRun env base64Image mime instr
        = \<lparr> promise = Inl (WithMessage (Some (orElse m ''Failed to process image with Gemini''))),
            consoleError = [WithMessage m] \<rparr>)
   \<and> (editImageWithGemini env base64Image mime instr = Inl (WithMessage (Some msg))
        \<and> msg \<noteq> [] \<longrightarrow>
      afterAwait (editImageWithGemini env base64Image mime instr) s
        = s\<lparr>error := Some msg, status := ERROR\<rparr>)"
  by (simp add: gatewayRun_def getClient_def tryBlock_def catchClause_def readMessage_def
      afterAwait_def orElse_def)

theorem gateway_rejections_witness:
  "\<not> truthy (API_KEY withoutKey)
   \<and> gatewayRun withoutKey ''data:image/png;base64,AAAA'' ''image/png'' ''remove background''
       = \<lparr> promise = Inl (WithMessage (Some ''API_KEY environment variable is not set'')),
           consoleError = [] \<rparr>
   \<and> truthy (API_KEY (throwing (WithMessage None)))
   \<and> gatewayRun (throwing (WithMessage None)) ''data:image/png;base64,AAAA'' ''image/png''
         ''remove background''
       = \<lparr> promise = Inl (WithMessage (Some ''Failed to process image with Gemini'')),
           consoleError = [WithMessage None] \<rparr>
   \<and> gatewayRun (throwing (WithMessage (Some ''quota exceeded''))) ''data:image/png;base64,AAAA''
         ''image/png'' ''remove background''
       = \<lparr> promise = Inl (WithMessage (Some ''quota exceeded'')),
           consoleError = [WithMessage (Some ''quota exceeded'')] \<rparr>
   \<and> afterAwait (editImageWithGemini withoutKey ''data:image/png;base64,AAAA'' ''image/png''
         ''remove background'') pendingState
       = pendingState\<lparr>error := Some ''API_KEY environment variable is not set'', status := ERROR\<rparr>"
proof -
  have k: "\<not> truthy (API_KEY withoutKey)"
    by (simp add: withoutKey_def truthy_def)
  have t: "truthy (API_KEY (throwing e))" for e
    by (simp add: throwing_def truthy_def)
  have g: "generateContent (throwing e) rq = Inl e" for e rq
    by (simp add: throwing_def)
  note w = gateway_rejections
    [of withoutKey "''data:image/png;base64,AAAA''" "''image/png''" "''remove background''"
        None "''API_KEY environment variable is not set''" pendingState]
  note n = gateway_rejections
    [of "throwing (WithMessage None)" "''data:image/png;base64,AAAA''" "''image/png''"
        "''remove background''" None "''x''" pendingState]
  note q = gateway_rejections
    [of "throwing (WithMessage (Some ''quota exceeded''))" "''data:image/png;base64,AAAA''"
        "''image/png''" "''remove background''" "Some ''quota exceeded''" "''x''" pendingState]
  have e1: "gatewayRun withoutKey ''data:image/png;base64,AAAA'' ''image/png'' ''remove background''
             = \<lparr> promise = Inl (WithMessage (Some ''API_KEY environment variable is not set'')),
                 consoleError = [] \<rparr>"
    using w k by blast
  have e2: "gatewayRun (throwing (WithMessage None)) ''data:image/png;base64,AAAA'' ''image/png''
              ''remove background''
             = \<lparr> promise = Inl (WithMessage (Some ''Failed to process image with Gemini'')),
                 consoleError = [WithMessage None] \<rparr>"
    using n t g by (simp add: orElse_def)
  have e3: "gatewayRun (throwing (WithMessage (Some ''quota exceeded'')))
              ''data:image/png;base64,AAAA'' ''image/png'' ''remove background''
             = \<lparr> promise = Inl (WithMessage (Some ''quota exceeded'')),
                 consoleError = [WithMessage (Some ''quota exceeded'')] \<rparr>"
    using q t g by (simp add: orElse_def)
  have e4: "afterAwait (editImageWithGemini withoutKey ''data:image/png;base64,AAAA'' ''image/png''
              ''remove background'') pendingState
            = pendingState\<lparr>error := Some ''API_KEY environment variable is not set'',
                status := ERROR\<rparr>"
    using w e1 by (simp add: editImageWithGemini_def)
  show ?thesis using k t e1 e2 e3 e4 by simp
qed

text \<open>
  C7. When no part of the response carries inline image data, the promise is rejected.
  If the part list is absent or empty, the message is the "no content" message. If no
  part carries text, the message is the "no valid image" message. Otherwise the message
  is the fixed prefix followed by the text of the first part that carries text.
\<close>

theorem no_image_is_failure:
  assumes "truthy (API_KEY env)"
    and "generateContent env (buildRequest base64Image mime instr) = Inr r"
  shows
    "(responseParts r = None \<or> responseParts r = Some [] \<longrightarrow>
        editImageWithGemini env base64Image mime instr
          = Inl (WithMessage (Some ''No content returned from Gemini'')))
     \<and> (responseParts r = Some ps \<and> ps \<noteq> [] \<and> (\<forall>q\<in>set ps. inlineImage q = None)
          \<and> (\<forall>q\<in>set ps. \<not> truthy (partText q)) \<longrightarrow>
        editImageWithGemini env base64Image mime instr
          = Inl (WithMessage (Some ''Model did not return a valid image.'')))
     \<and> (responseParts r = Some (pre @ q # post) \<and> (\<forall>x\<in>set (pre @ q # post). inlineImage x = None)
          \<and> (\<forall>x\<in>set pre. \<not> truthy (partText x)) \<and> partText q = Some t \<and> t \<noteq> [] \<longrightarrow>
        editImageWithGemini env base64Image mime instr
          = Inl (WithMessage (Some (''Model returned text instead of image: '' @ t))))"
proof -
  have call: "editImageWithGemini env base64Image mime instr
                = (case readResponse r of
                     Inl e \<Rightarrow> Inl (catchClause env e)
                   | Inr url \<Rightarrow> Inr url)"
    using assms
    by (simp add: editImageWithGemini_def gatewayRun_def getClient_def tryBlock_def
        split: sum.splits)
  have empty: "responseParts r = None \<or> responseParts r = Some [] \<Longrightarrow>
                 readResponse r = Inl (WithMessage (Some ''No content returned from Gemini''))"
    by (auto simp: readResponse_def)
  have plain: "responseParts r = Some ps \<Longrightarrow> ps \<noteq> [] \<Longrightarrow> \<forall>q\<in>set ps. inlineImage q = None \<Longrightarrow>
                 \<forall>q\<in>set ps. \<not> truthy (partText q) \<Longrightarrow>
                 readResponse r = Inl (WithMessage (Some ''Model did not return a valid image.''))"
    by (simp add: readResponse_def firstImage_None findText_None split: list.splits)
  have worded: "readResponse r
                  = Inl (WithMessage (Some (''Model returned text instead of image: '' @ t)))"
    if p: "responseParts r = Some (pre @ q # post)"
      and i: "\<forall>x\<in>set (pre @ q # post). inlineImage x = None"
      and x: "\<forall>x\<in>set pre. \<not> truthy (partText x)"
      and tq: "partText q = Some t" "t \<noteq> []"
  proof -
    have fi: "firstImage (pre @ q # post) = None"
      using i by (rule firstImage_None)
    have "truthy (partText q)" using tq by (simp add: truthy_def)
    with x have ft: "findText (pre @ q # post) = Some q"
      by (rule findText_first)
    obtain y ys where c: "pre @ q # post = y # ys"
      by (cases pre) simp_all
    show ?thesis
      unfolding readResponse_def p
      using fi ft tq unfolding c by simp
  qed
  show ?thesis
    using empty plain worded
    by (simp add: call catchClause_def readMessage_def orElse_def)
qed

theorem no_image_is_failure_witness:
  "truthy (API_KEY (answering [textPart ''unsafe content'']))
   \<and> generateContent (answering [textPart ''unsafe content''])
        (buildRequest ''data:image/png;base64,AAAA'' ''image/png'' ''remove background'')
       = Inr (responseOf [textPart ''unsafe content''])
   \<and> responseParts (responseOf [textPart ''unsafe content'']) = Some ([] @ textPart ''unsafe content'' # [])
   \<and> inlineImage (textPart ''unsafe content'') = None
   \<and> partText (textPart ''unsafe content'') = Some ''unsafe content''
   \<and> editImageWithGemini (answering [textPart ''unsafe content''])
        ''data:image/png;base64,AAAA'' ''image/png'' ''remove background''
       = Inl (WithMessage (Some ''Model returned text instead of image: unsafe content''))"
proof -
  have k: "truthy (API_KEY (answering [textPart ''unsafe content'']))"
    by (simp add: answering_def truthy_def)
  have g: "generateContent (answering [textPart ''unsafe content''])
             (buildRequest ''data:image/png;base64,AAAA'' ''image/png'' ''remove background'')
           = Inr (responseOf [textPart ''unsafe content''])"
    by (simp add: answering_def)
  have p: "responseParts (responseOf [textPart ''unsafe content''])
             = Some ([] @ textPart ''unsafe content'' # [])"
    by (simp add: responseParts_def responseOf_def)
  have i: "\<forall>x\<in>set ([] @ textPart ''unsafe content'' # []). inlineImage x = None"
    by (simp add: inlineImage_def textPart_def)
  have t: "partText (textPart ''unsafe content'') = Some ''unsafe content''"
    by (simp add: textPart_def)
  have "editImageWithGemini (answering [textPart ''unsafe content''])
          ''data:image/png;base64,AAAA'' ''image/png'' ''remove background''
        = Inl (WithMessage (Some (''Model returned text instead of image: '' @ ''unsafe content'')))"
    using no_image_is_failure [OF k g, of "[]" "[]" "textPart ''unsafe content''" "[]"
        "''unsafe content''"] p i t
    by simp
  then show ?thesis using k g p i t by simp
qed

text \<open>
  C8. When some part of the response carries inline image data, the promise resolves to
  the data of the first such part, whatever parts precede it, behind the fixed header
  \<open>data:image/png;base64,\<close>.
\<close>

theorem first_image_is_returned:
  assumes "truthy (API_KEY env)"
    and "generateContent env (buildRequest base64Image mime instr) = Inr r"
    and "responseParts r = Some (pre @ q # post)"
    and "\<forall>x\<in>set pre. inlineImage x = None"
    and "inlineData q = Some d" and "data d = Some img" and "img \<noteq> []"
  shows "editImageWithGemini env base64Image mime instr
           = Inr (''data:image/png;base64,'' @ img)"
proof -
  have "inlineImage q = Some img"
    using assms(5-7) by (rule inlineImage_Some)
  with assms(4) have fi: "firstImage (pre @ q # post) = Some img"
    by (rule firstImage_first)
  obtain y ys where c: "pre @ q # post = y # ys"
    by (cases pre) simp_all
  have "readResponse r = Inr (''data:image/png;base64,'' @ img)"
    unfolding readResponse_def assms(3) using fi unfolding c by simp
  then show ?thesis
    using assms(1,2)
    by (simp add: editImageWithGemini_def gatewayRun_def getClient_def tryBlock_def)
qed

theorem first_image_is_returned_witness:
  "truthy (API_KEY (answering [textPart ''here you go'', imagePart ''BBBB'', imagePart ''CCCC'']))
   \<and> responseParts (responseOf [textPart ''here you go'', imagePart ''BBBB'', imagePart ''CCCC''])
       = Some ([textPart ''here you go''] @ imagePart ''BBBB'' # [imagePart ''CCCC''])
   \<and> inlineImage (textPart ''here you go'') = None
   \<and> inlineData (imagePart ''BBBB'') = Some \<lparr> data = Some ''BBBB'' \<rparr>
   \<and> editImageWithGemini (answering [textPart ''here you go'', imagePart ''BBBB'', imagePart ''CCCC''])
        ''data:image/jpeg;base64,AAAA'' ''image/jpeg'' ''remove background''
       = Inr ''data:image/png;base64,BBBB''"
proof -
  let ?ps = "[textPart ''here you go'', imagePart ''BBBB'', imagePart ''CCCC'']"
  have k: "truthy (API_KEY (answering ?ps))"
    by (simp add: answering_def truthy_def)
  have g: "generateContent (answering ?ps)
             (buildRequest ''data:image/jpeg;base64,AAAA'' ''image/jpeg'' ''remove background'')
           = Inr (responseOf ?ps)"
    by (simp add: answering_def)
  have p: "responseParts (responseOf ?ps)
             = Some ([textPart ''here you go''] @ imagePart ''BBBB'' # [imagePart ''CCCC''])"
    by (simp add: responseParts_def responseOf_def)
  have i: "\<forall>x\<in>set [textPart ''here you go'']. inlineImage x = None"
    by (simp add: inlineImage_def textPart_def)
  have d: "inlineData (imagePart ''BBBB'') = Some \<lparr> data = Some ''BBBB'' \<rparr>"
    by (simp add: imagePart_def)
  have d': "data \<lparr> data = Some ''BBBB'' \<rparr> = Some ''BBBB''" by simp
  have n: "''BBBB'' \<noteq> []" by simp
  have "editImageWithGemini (answering ?ps)
          ''data:image/jpeg;base64,AAAA'' ''image/jpeg'' ''remove background''
        = Inr (''data:image/png;base64,'' @ ''BBBB'')"
    by (rule first_image_is_returned [OF k g p i d d' n])
  then show ?thesis using k p i d by simp
qed

text \<open>
  C9. The header of an SVG data URL is not removed: \<open>+\<close> is no word character, so the
  pattern does not match and the whole data URL is sent as the image data. The upload
  handler accepts the file, since its type starts with \<open>image/\<close>.
\<close>

theorem svg_header_is_transmitted:
  "startsWith (fileType svgFile) ''image/''
   \<and> gatewayCalls svgState
       = [(''data:image/svg+xml;base64,PHN2Zy8+'', ''image/svg+xml'', ''remove background'')]
   \<and> requestData (buildRequest ''data:image/svg+xml;base64,PHN2Zy8+'' ''image/svg+xml''
        ''remove background'')
       = ''data:image/svg+xml;base64,PHN2Zy8+''"
  by (simp add: svgState_eq gatewayCalls_def invokeGenerate_def returnsEarly_def value_defs svgFile_def
      buildRequest_def cleanBase64_def isWordChar_def)

section \<open>The session state controller\<close>

text \<open>
  C1, as stated, fails: a generation that fails after an earlier one has succeeded leaves
  the earlier image in place beside the new error message. The events are an upload, the
  end of its read, a prompt, a generation that succeeds and one that fails.
\<close>

theorem failed_resubmit_keeps_result_counterexample:
  "generatedImage (handleGenerate (throwing (WithMessage (Some ''quota exceeded''))) succeededState)
     = Some ''data:image/png;base64,BBBB''
   \<and> error (handleGenerate (throwing (WithMessage (Some ''quota exceeded''))) succeededState)
     = Some ''quota exceeded''
   \<and> status (handleGenerate (throwing (WithMessage (Some ''quota exceeded''))) succeededState) = ERROR
   \<and> ui (run [FileUpload (Some pngFile), Loadend (readerResult pngFile),
               SetPrompt ''remove background'',
               Generate (answering [imagePart ''BBBB'']), Settle 0,
               Generate (throwing (WithMessage (Some ''quota exceeded''))), Settle 0] freshSession)
     = \<lparr> status = ERROR, originalImage = Some ''data:image/png;base64,AAAA'',
         generatedImage = Some ''data:image/png;base64,BBBB'', prompt = ''remove background'',
         error = Some ''quota exceeded'', mimeType = ''image/png'' \<rparr>"
proof -
  let ?fail = "throwing (WithMessage (Some ''quota exceeded''))"
  have h: "handleGenerate ?fail succeededState
             = \<lparr> status = ERROR, originalImage = Some ''data:image/png;base64,AAAA'',
                 generatedImage = Some ''data:image/png;base64,BBBB'',
                 prompt = ''remove background'', error = Some ''quota exceeded'',
                 mimeType = ''image/png'' \<rparr>"
    unfolding handleGenerate_eq
    by (simp add: succeededState_valid)
       (simp add: succeededState_eq beforeAwait_def afterAwait_def gateway_defs value_defs
          throwing_def)
  have r: "run [FileUpload (Some pngFile), Loadend (readerResult pngFile),
             SetPrompt ''remove background''] freshSession
           = \<lparr> ui = readyState, pending = [] \<rparr>"
    by (simp add: freshSession_def readyState_def)
  have g1: "ui (run [Generate (answering [imagePart ''BBBB'']), Settle 0]
              \<lparr> ui = readyState, pending = [] \<rparr>) = succeededState"
    using handleGenerate_is_a_run [of "answering [imagePart ''BBBB'']" "\<lparr> ui = readyState, pending = [] \<rparr>"]
    by (simp add: succeededState_def)
  have p1: "pending (run [Generate (answering [imagePart ''BBBB'']), Settle 0]
              \<lparr> ui = readyState, pending = [] \<rparr>) = []"
    using readyState_valid by (simp add: invokeGenerate_def)
  have s1: "run [Generate (answering [imagePart ''BBBB'']), Settle 0]
              \<lparr> ui = readyState, pending = [] \<rparr> = \<lparr> ui = succeededState, pending = [] \<rparr>"
    using g1 p1 by (cases "run [Generate (answering [imagePart ''BBBB'']), Settle 0]
              \<lparr> ui = readyState, pending = [] \<rparr>") simp
  have g2: "ui (run [Generate ?fail, Settle 0] \<lparr> ui = succeededState, pending = [] \<rparr>)
              = handleGenerate ?fail succeededState"
    using handleGenerate_is_a_run [of ?fail "\<lparr> ui = succeededState, pending = [] \<rparr>"]
    by simp
  have split: "run [FileUpload (Some pngFile), Loadend (readerResult pngFile),
               SetPrompt ''remove background'',
               Generate (answering [imagePart ''BBBB'']), Settle 0,
               Generate ?fail, Settle 0] freshSession
             = run [Generate ?fail, Settle 0]
                 (run [Generate (answering [imagePart ''BBBB'']), Settle 0]
                   (run [FileUpload (Some pngFile), Loadend (readerResult pngFile),
                         SetPrompt ''remove background''] freshSession))"
    by simp
  show ?thesis
    unfolding split r s1 g2 by (simp add: h)
qed

text \<open>
  C1, amended. When the call of a generation settles, the session is either in \<open>SUCCESS\<close>
  with a non-empty generated image, the error message being what it was at that moment,
  or in \<open>ERROR\<close> with a non-empty error message, the generated image being what it was at
  that moment. When nothing happens between the invocation and the settling, the error
  message is empty after a success, and after a failure the generated image is the one
  the generation started with.
\<close>

theorem settled_generate_outcome:
  "(i < length (pending w) \<longrightarrow>
      (status (ui (step (Settle i) w)) = SUCCESS
         \<and> truthy (generatedImage (ui (step (Settle i) w)))
         \<and> error (ui (step (Settle i) w)) = error (ui w))
      \<or> (status (ui (step (Settle i) w)) = ERROR
         \<and> truthy (error (ui (step (Settle i) w)))
         \<and> generatedImage (ui (step (Settle i) w)) = generatedImage (ui w)))
   \<and> (truthy (originalImage s) \<and> trim (prompt s) \<noteq> [] \<longrightarrow>
      (status (handleGenerate env s) = SUCCESS
         \<and> truthy (generatedImage (handleGenerate env s))
         \<and> error (handleGenerate env s) = None)
      \<or> (status (handleGenerate env s) = ERROR
         \<and> truthy (error (handleGenerate env s))
         \<and> generatedImage (handleGenerate env s) = generatedImage s))"
proof -
  have settle:
    "(status (afterAwait (editImageWithGemini e b m p) t) = SUCCESS
        \<and> truthy (generatedImage (afterAwait (editImageWithGemini e b m p) t))
        \<and> error (afterAwait (editImageWithGemini e b m p) t) = error t)
     \<or> (status (afterAwait (editImageWithGemini e b m p) t) = ERROR
        \<and> truthy (error (afterAwait (editImageWithGemini e b m p) t))
        \<and> generatedImage (afterAwait (editImageWithGemini e b m p) t) = generatedImage t)"
    for e b m p t
  proof (cases "editImageWithGemini e b m p")
    case (Inl x)
    then obtain msg where x: "x = WithMessage (Some msg)"
      by (blast dest: editImageWithGemini_Inl)
    have "truthy (Some (orElse (Some msg) ''Something went wrong during generation.''))"
      by (rule truthy_orElse) simp
    then show ?thesis
      by (simp add: Inl x afterAwait_def)
  next
    case (Inr url)
    then obtain d where "url = ''data:image/png;base64,'' @ d"
      by (blast dest: editImageWithGemini_Inr)
    then have "truthy (Some url)" by (simp add: truthy_def)
    then show ?thesis
      by (simp add: Inr afterAwait_def)
  qed
  have first: "(status (ui (step (Settle i) w)) = SUCCESS
         \<and> truthy (generatedImage (ui (step (Settle i) w)))
         \<and> error (ui (step (Settle i) w)) = error (ui w))
      \<or> (status (ui (step (Settle i) w)) = ERROR
         \<and> truthy (error (ui (step (Settle i) w)))
         \<and> generatedImage (ui (step (Settle i) w)) = generatedImage (ui w))"
    if "i < length (pending w)"
  proof -
    obtain e b m p where c: "pending w ! i = (e, b, m, p)"
      by (cases "pending w ! i") auto
    have "ui (step (Settle i) w) = afterAwait (editImageWithGemini e b m p) (ui w)"
      using that c by simp
    then show ?thesis using settle [of e b m p "ui w"] by simp
  qed
  have second: "(status (handleGenerate env s) = SUCCESS
         \<and> truthy (generatedImage (handleGenerate env s))
         \<and> error (handleGenerate env s) = None)
      \<or> (status (handleGenerate env s) = ERROR
         \<and> truthy (error (handleGenerate env s))
         \<and> generatedImage (handleGenerate env s) = generatedImage s)"
    if "truthy (originalImage s)" "trim (prompt s) \<noteq> []"
  proof -
    have "handleGenerate env s
            = afterAwait (editImageWithGemini env (the (originalImage s)) (mimeType s) (prompt s))
                (beforeAwait s)"
      using that by (simp add: handleGenerate_eq returnsEarly_def truthy_def)
    then show ?thesis
      using settle [of env "the (originalImage s)" "mimeType s" "prompt s" "beforeAwait s"]
      by (simp add: beforeAwait_def)
  qed
  show ?thesis using first second by blast
qed

theorem settled_generate_outcome_witness:
  "0 < length (pending failingSession)
   \<and> status (ui (step (Settle 0) failingSession)) = ERROR
   \<and> truthy (error (ui (step (Settle 0) failingSession)))
   \<and> generatedImage (ui (step (Settle 0) failingSession)) = generatedImage (ui failingSession)
   \<and> truthy (originalImage readyState) \<and> trim (prompt readyState) \<noteq> []
   \<and> status (handleGenerate (throwing (WithMessage None)) readyState) = ERROR
   \<and> truthy (error (handleGenerate (throwing (WithMessage None)) readyState))
   \<and> generatedImage (handleGenerate (throwing (WithMessage None)) readyState) = None"
proof -
  have l: "0 < length (pending failingSession)"
    by (simp add: failingSession_def)
  have n1: "status (ui (step (Settle 0) failingSession)) \<noteq> SUCCESS"
    by (simp add: failingSession_def afterAwait_def gateway_defs throwing_def truthy_def)
  have a: "truthy (originalImage readyState)"
    by (simp add: readyState_eq truthy_def)
  have b: "trim (prompt readyState) \<noteq> []"
    by (simp add: readyState_eq trim_def isWhiteSpace_def)
  have c: "generatedImage readyState = None"
    by (simp add: readyState_eq)
  have n2: "status (handleGenerate (throwing (WithMessage None)) readyState) \<noteq> SUCCESS"
    unfolding handleGenerate_eq
    by (simp add: readyState_valid)
       (simp add: readyState_eq beforeAwait_def afterAwait_def gateway_defs throwing_def
          truthy_def)
  show ?thesis
    using settled_generate_outcome
            [of 0 failingSession readyState "throwing (WithMessage None)"] l n1 a b c n2
    by simp
qed

text \<open>
  C2, as stated, fails: a new generation started after a success sets \<open>LOADING\<close> while
  the image of the earlier request is still stored.
\<close>

theorem loading_with_stale_result_counterexample:
  "\<not> returnsEarly succeededState
   \<and> status (beforeAwait succeededState) = LOADING
   \<and> generatedImage (beforeAwait succeededState) = Some ''data:image/png;base64,BBBB''"
  by (simp add: succeededState_valid) (simp add: succeededState_eq beforeAwait_def)

text \<open>
  C2, amended. An invocation that passes the guard sets \<open>LOADING\<close>, clears the error
  message, leaves the generated image as it was and starts one gateway call. When a call
  settles, on whatever state, a success replaces the stored image and a failure leaves
  it as it is at that moment.
\<close>

theorem generate_clears_error_only:
  assumes "\<not> returnsEarly s"
  shows "status (beforeAwait s) = LOADING \<and> error (beforeAwait s) = None
         \<and> generatedImage (beforeAwait s) = generatedImage s
         \<and> step (Generate env) \<lparr> ui = s, pending = calls \<rparr>
             = \<lparr> ui = beforeAwait s,
                 pending = calls @ [(env, the (originalImage s), mimeType s, prompt s)] \<rparr>
         \<and> (case editImageWithGemini env' b m p of
               Inr url \<Rightarrow> generatedImage (afterAwait (editImageWithGemini env' b m p) s') = Some url
             | Inl e \<Rightarrow>
                 generatedImage (afterAwait (editImageWithGemini env' b m p) s') = generatedImage s')"
  using assms
  by (simp add: invokeGenerate_def beforeAwait_def afterAwait_def split: sum.splits thrown.splits)

theorem generate_clears_error_only_witness:
  "\<not> returnsEarly succeededState
   \<and> status (beforeAwait succeededState) = LOADING
   \<and> error (beforeAwait succeededState) = None
   \<and> generatedImage (beforeAwait succeededState) = generatedImage succeededState
   \<and> generatedImage succeededState = Some ''data:image/png;base64,BBBB''
   \<and> step (Generate withoutKey) \<lparr> ui = succeededState, pending = [] \<rparr>
       = \<lparr> ui = beforeAwait succeededState,
           pending = [(withoutKey, ''data:image/png;base64,AAAA'', ''image/png'',
                       ''remove background'')] \<rparr>"
  using generate_clears_error_only
          [OF succeededState_valid, of withoutKey "[]" withoutKey "[]" "[]" "[]" succeededState]
    succeededState_valid
  by (simp add: succeededState_eq)

text \<open>
  C3, as stated, fails: a file that is no image is rejected by storing a message in
  \<open>error\<close>, the field that also holds generation failures.
\<close>

theorem non_image_upload_sets_error_counterexample:
  "\<not> startsWith (fileType textFile) ''image/''
   \<and> error initialState = None
   \<and> error (handleFileUpload (Some textFile) initialState)
       = Some ''Please upload a valid image file.''
   \<and> handleFileUpload (Some textFile) initialState \<noteq> initialState"
  by (simp add: handleFileUpload_def textFile_def initialState_def startsWith_def)

text \<open>
  C3, amended. For a file whose type does not start with \<open>image/\<close>, the upload handler
  leaves the status, both images, the prompt and the media type unchanged, and stores
  the fixed message in \<open>error\<close>.
\<close>

theorem non_image_upload_rejected:
  assumes "\<not> startsWith (fileType f) ''image/''"
  shows "status (handleFileUpload (Some f) s) = status s
         \<and> originalImage (handleFileUpload (Some f) s) = originalImage s
         \<and> generatedImage (handleFileUpload (Some f) s) = generatedImage s
         \<and> prompt (handleFileUpload (Some f) s) = prompt s
         \<and> mimeType (handleFileUpload (Some f) s) = mimeType s
         \<and> error (handleFileUpload (Some f) s) = Some ''Please upload a valid image file.''"
  using assms by (simp add: handleFileUpload_def)

theorem non_image_upload_rejected_witness:
  "\<not> startsWith (fileType textFile) ''image/''
   \<and> status (handleFileUpload (Some textFile) succeededState) = SUCCESS
   \<and> originalImage (handleFileUpload (Some textFile) succeededState)
       = Some ''data:image/png;base64,AAAA''
   \<and> generatedImage (handleFileUpload (Some textFile) succeededState)
       = Some ''data:image/png;base64,BBBB''
   \<and> mimeType (handleFileUpload (Some textFile) succeededState) = ''image/png''
   \<and> error (handleFileUpload (Some textFile) succeededState)
       = Some ''Please upload a valid image file.''"
proof -
  have n: "\<not> startsWith (fileType textFile) ''image/''"
    by (simp add: textFile_def startsWith_def)
  show ?thesis
    using non_image_upload_rejected [OF n, of succeededState] n
    by (simp add: succeededState_eq)
qed

text \<open>
  C4, as stated, fails: \<open>handleReset\<close> does not assign the media type, so after a PNG has
  been uploaded the reset session differs from the initial one in \<open>mimeType\<close>.
\<close>

theorem reset_keeps_mimeType_counterexample:
  "mimeType (handleReset succeededState) = ''image/png''
   \<and> mimeType initialState = ''image/jpeg''
   \<and> handleReset succeededState \<noteq> initialState"
  by (simp add: succeededState_eq handleReset_def initialState_def)

text \<open>
  C4, amended. From every state, \<open>handleReset\<close> yields the initial session except for the
  media type, which keeps its value: status \<open>IDLE\<close>, no images, no error message and an
  empty prompt.
\<close>

theorem reset_is_initial_up_to_mimeType:
  "handleReset s = initialState\<lparr>mimeType := mimeType s\<rparr>"
  by (simp add: handleReset_def initialState_def)

theorem reset_is_initial_up_to_mimeType_witness:
  "handleReset pendingState = initialState\<lparr>mimeType := mimeType pendingState\<rparr>"
  by (rule reset_is_initial_up_to_mimeType)

text \<open>
  C5, as stated, fails: the guard of \<open>handleGenerate\<close> does not read the status, so an
  invocation while a call is pending starts a second call.
\<close>

theorem generate_while_loading_counterexample:
  "status pendingState = LOADING
   \<and> gatewayCalls pendingState
       = [(''data:image/png;base64,AAAA'', ''image/png'', ''remove background'')]
   \<and> handleGenerate (throwing (WithMessage (Some ''quota exceeded''))) pendingState \<noteq> pendingState
   \<and> status (ui (step (Generate withoutKey) \<lparr> ui = readyState, pending = [] \<rparr>)) = LOADING
   \<and> length (pending (run [Generate withoutKey, Generate withoutKey]
                \<lparr> ui = readyState, pending = [] \<rparr>)) = 2"
proof -
  let ?fail = "throwing (WithMessage (Some ''quota exceeded''))"
  have v: "\<not> returnsEarly pendingState"
    by (simp add: pendingState_eq returnsEarly_def value_defs)
  have "status (handleGenerate ?fail pendingState) = ERROR"
    unfolding handleGenerate_eq using v
    by (simp add: afterAwait_def beforeAwait_def split: sum.splits)
       (simp add: pendingState_eq gateway_defs value_defs throwing_def)
  moreover have l: "status pendingState = LOADING"
    by (simp add: pendingState_eq)
  ultimately have n: "handleGenerate ?fail pendingState \<noteq> pendingState"
    by auto
  have c: "gatewayCalls pendingState
       = [(''data:image/png;base64,AAAA'', ''image/png'', ''remove background'')]"
    using v by (simp add: gatewayCalls_def invokeGenerate_def) (simp add: pendingState_eq)
  have g: "step (Generate withoutKey) \<lparr> ui = readyState, pending = [] \<rparr>
             = \<lparr> ui = pendingState,
                 pending = [(withoutKey, the (originalImage readyState), mimeType readyState,
                             prompt readyState)] \<rparr>"
    using readyState_valid by (simp add: invokeGenerate_def pendingState_def)
  have "length (pending (run [Generate withoutKey, Generate withoutKey]
                \<lparr> ui = readyState, pending = [] \<rparr>)) = 2"
    using v readyState_valid by (simp add: invokeGenerate_def pendingState_def [symmetric])
  then show ?thesis using l n c g by simp
qed

text \<open>
  C5, amended. An invocation of \<open>handleGenerate\<close> on a state with a non-empty original
  image and a non-blank prompt sets \<open>LOADING\<close>, clears the error message and starts exactly
  one gateway call, whatever the status and however many calls are pending; the status
  at the invocation has no influence on the run. On any other state the invocation
  changes nothing and starts no call.
\<close>

theorem generate_ignores_status:
  "(truthy (originalImage s) \<and> trim (prompt s) \<noteq> [] \<longrightarrow>
      step (Generate env) \<lparr> ui = s, pending = calls \<rparr>
        = \<lparr> ui = s\<lparr>status := LOADING, error := None\<rparr>,
            pending = calls @ [(env, the (originalImage s), mimeType s, prompt s)] \<rparr>
      \<and> handleGenerate env (s\<lparr>status := st\<rparr>) = handleGenerate env s)
   \<and> (\<not> truthy (originalImage s) \<or> trim (prompt s) = [] \<longrightarrow>
      step (Generate env) \<lparr> ui = s, pending = calls \<rparr> = \<lparr> ui = s, pending = calls \<rparr>
      \<and> handleGenerate env s = s)"
  by (simp add: handleGenerate_eq invokeGenerate_def returnsEarly_def beforeAwait_def
      afterAwait_def truthy_def split: sum.splits thrown.splits)

theorem generate_ignores_status_witness:
  "status pendingState = LOADING
   \<and> truthy (originalImage pendingState) \<and> trim (prompt pendingState) \<noteq> []
   \<and> step (Generate withoutKey) failingSession
       = \<lparr> ui = pendingState,
           pending = [(throwing (WithMessage None), ''data:image/png;base64,AAAA'', ''image/png'',
                       ''remove background''),
                      (withoutKey, ''data:image/png;base64,AAAA'', ''image/png'',
                       ''remove background'')] \<rparr>
   \<and> handleGenerate withoutKey (pendingState\<lparr>status := IDLE\<rparr>)
       = handleGenerate withoutKey pendingState
   \<and> trim (prompt (setPrompt ''   '' readyState)) = []
   \<and> handleGenerate withoutKey (setPrompt ''   '' readyState) = setPrompt ''   '' readyState"
proof -
  have l: "status pendingState = LOADING"
    by (simp add: pendingState_eq)
  have a: "truthy (originalImage pendingState)"
    by (simp add: pendingState_eq truthy_def)
  have b: "trim (prompt pendingState) \<noteq> []"
    by (simp add: pendingState_eq trim_def isWhiteSpace_def)
  have f: "failingSession
             = \<lparr> ui = pendingState,
                 pending = [(throwing (WithMessage None), ''data:image/png;base64,AAAA'',
                             ''image/png'', ''remove background'')] \<rparr>"
    by (simp add: failingSession_def)
  have e: "trim (prompt (setPrompt ''   '' readyState)) = []"
    by (simp add: setPrompt_def trim_def isWhiteSpace_def)
  note busy = generate_ignores_status
    [of pendingState withoutKey
        "[(throwing (WithMessage None), ''data:image/png;base64,AAAA'', ''image/png'',
           ''remove background'')]" IDLE]
  note blank = generate_ignores_status [of "setPrompt ''   '' readyState" withoutKey "[]" IDLE]
  have 1: "step (Generate withoutKey) failingSession
       = \<lparr> ui = pendingState,
           pending = [(throwing (WithMessage None), ''data:image/png;base64,AAAA'', ''image/png'',
                       ''remove background''),
                      (withoutKey, ''data:image/png;base64,AAAA'', ''image/png'',
                       ''remove background'')] \<rparr>"
    unfolding f using busy a b by (simp add: pendingState_eq)
  have 2: "handleGenerate withoutKey (pendingState\<lparr>status := IDLE\<rparr>)
       = handleGenerate withoutKey pendingState"
    using busy a b by blast
  have 3: "handleGenerate withoutKey (setPrompt ''   '' readyState) = setPrompt ''   '' readyState"
    using blank e by blast
  show ?thesis using l a b e 1 2 3 by simp
qed

text \<open>
  C10. \<open>handleGenerate\<close> never changes the original image, the media type or the prompt:
  not when the guard returns early, not before the gateway call, and not when the promise
  resolves or is rejected, on whatever state it settles.
\<close>

theorem generate_preserves_inputs:
  "originalImage (handleGenerate env s) = originalImage s
   \<and> mimeType (handleGenerate env s) = mimeType s
   \<and> prompt (handleGenerate env s) = prompt s
   \<and> originalImage (beforeAwait s) = originalImage s
   \<and> mimeType (beforeAwait s) = mimeType s
   \<and> prompt (beforeAwait s) = prompt s
   \<and> originalImage (afterAwait outcome s) = originalImage s
   \<and> mimeType (afterAwait outcome s) = mimeType s
   \<and> prompt (afterAwait outcome s) = prompt s"
  by (simp add: handleGenerate_eq beforeAwait_def afterAwait_def split: sum.splits thrown.splits)

theorem generate_preserves_inputs_witness:
  "originalImage (handleGenerate (answering [imagePart ''BBBB'']) readyState)
     = Some ''data:image/png;base64,AAAA''
   \<and> mimeType (handleGenerate (answering [imagePart ''BBBB'']) readyState) = ''image/png''
   \<and> prompt (handleGenerate (answering [imagePart ''BBBB'']) readyState) = ''remove background''"
  using generate_preserves_inputs [of "answering [imagePart ''BBBB'']" readyState "Inl Nullish"]
  by (simp add: readyState_eq)

end
